theory Spec2Isabelle
  imports Complex_Main
begin

section \<open>The drawing surface of \<open>src/App.tsx\<close>: state and handlers\<close>

text \<open>
  The component \<open>App\<close> keeps its data in React state cells and one mutable ref. Every handler
  is modelled as a function from the component state before the event to the state after it.
  Events are handled one at a time and the component renders between two events, so the
  values a handler's closure reads (\<open>lines\<close>, \<open>history\<close>, \<open>historyStep\<close>, \<open>tool\<close>, ...) and the
  values its updater functions receive are those of the one state before the event.

  Arrays are immutable values here. That is exact for this code: no handler writes into an
  existing array or stroke object (\<open>[...prev, x]\<close>, \<open>slice\<close>, \<open>concat\<close> and the object spread
  all build new values), so a snapshot stored in \<open>history\<close> never changes afterwards.
\<close>

subsection \<open>JavaScript array primitives\<close>

text \<open>\<open>xs[i]\<close>: the element, or \<open>undefined\<close> (here \<open>None\<close>) outside \<open>0 .. length - 1\<close>.\<close>

definition js_index :: "'a list \<Rightarrow> int \<Rightarrow> 'a option" where
  "js_index xs i = (if 0 \<le> i \<and> i < int (length xs) then Some (xs ! nat i) else None)"

text \<open>
  \<open>xs.slice(start, end)\<close>: a negative bound counts from the end of the array, and both bounds
  are clamped to \<open>0 .. length\<close>.
\<close>

definition js_slice :: "'a list \<Rightarrow> int \<Rightarrow> int \<Rightarrow> 'a list" where
  "js_slice xs start end =
     (let len = int (length xs);
          k = (if start < 0 then max (len + start) 0 else min start len);
          final = (if end < 0 then max (len + end) 0 else min end len)
      in take (nat (final - k)) (drop (nat k) xs))"

subsection \<open>Data\<close>

datatype Tool = Pen | Eraser

text \<open>
  The interface \<open>DrawingLine\<close>. Coordinates and sizes are JavaScript numbers that the handlers
  only store and copy, never compute with; they are reals here. The field \<open>size\<close> is named
  \<open>line_size\<close>, and \<open>tool\<close> and \<open>color\<close> are \<open>line_tool\<close> and \<open>line_color\<close>, to keep them apart
  from the state cells of the same names.
\<close>

record DrawingLine =
  line_color :: string
  points :: "real list"
  line_size :: real
  line_tool :: Tool

text \<open>
  The state cells of \<open>App\<close> (lines 30 to 39) that the drawing and history handlers read or
  write. \<open>historyStep\<close> is a number that only ever has \<open>1\<close> added or subtracted, an integer.
  \<open>isDrawing\<close> is the ref \<open>isDrawing.current\<close>.
\<close>

record app_state =
  tool :: Tool
  lines :: "DrawingLine list"
  history :: "DrawingLine list list"
  historyStep :: int
  color :: string
  showToolbox :: bool
  penSize :: real
  eraserSize :: real
  isDrawing :: bool

definition PREDEFINED_COLORS :: "string list" where
  "PREDEFINED_COLORS =
     [''#df4b26'', ''#000000'', ''#ffffff'', ''#1e90ff'', ''#32cd32'', ''#ff69b4'', ''#ffa500'',
      ''#8a2be2'']"

definition initial_state :: app_state where
  "initial_state =
     \<lparr>tool = Pen, lines = [], history = [[]], historyStep = 0, color = hd PREDEFINED_COLORS,
      showToolbox = True, penSize = 6, eraserSize = 12, isDrawing = False\<rparr>"

datatype js_error = TypeError

subsection \<open>Tool selection\<close>

definition currentSize :: "app_state \<Rightarrow> real" where
  "currentSize s = (if tool s = Pen then penSize s else eraserSize s)"

definition setCurrentSize :: "real \<Rightarrow> app_state \<Rightarrow> app_state" where
  "setCurrentSize v s = (if tool s = Pen then s\<lparr>penSize := v\<rparr> else s\<lparr>eraserSize := v\<rparr>)"

definition handleToolClick :: "Tool \<Rightarrow> app_state \<Rightarrow> app_state" where
  "handleToolClick selectedTool s = s\<lparr>tool := selectedTool\<rparr>"

definition setColor :: "string \<Rightarrow> app_state \<Rightarrow> app_state" where
  "setColor v s = s\<lparr>color := v\<rparr>"

subsection \<open>History\<close>

text \<open>
  \<open>handleUndo\<close>: the read \<open>history[historyStep - 1] || []\<close> falls back to the empty array when
  the index is out of range (an array, even an empty one, is truthy).
\<close>

definition handleUndo :: "app_state \<Rightarrow> app_state" where
  "handleUndo s =
     (if historyStep s > 0
      then s\<lparr>historyStep := historyStep s - 1,
             lines := (case js_index (history s) (historyStep s - 1) of
                         Some l \<Rightarrow> l
                       | None \<Rightarrow> [])\<rparr>
      else s)"

text \<open>
  \<open>handleRedo\<close> has no fallback: an out-of-range read puts \<open>undefined\<close> into \<open>lines\<close>, and the
  render that follows the state change throws a \<open>TypeError\<close> at \<open>lines.map\<close> (line 533). The
  event then ends in that error.
\<close>

definition handleRedo :: "app_state \<Rightarrow> js_error + app_state" where
  "handleRedo s =
     (if historyStep s < int (length (history s)) - 1
      then (case js_index (history s) (historyStep s + 1) of
              Some l \<Rightarrow> Inr (s\<lparr>historyStep := historyStep s + 1, lines := l\<rparr>)
            | None \<Rightarrow> Inl TypeError)
      else Inr s)"

text \<open>The undo and redo buttons are disabled by these tests (lines 285 and 294).\<close>

definition canUndo :: "app_state \<Rightarrow> bool" where
  "canUndo s = (\<not> historyStep s \<le> 0)"

definition canRedo :: "app_state \<Rightarrow> bool" where
  "canRedo s = (\<not> historyStep s \<ge> int (length (history s)) - 1)"

subsection \<open>Capture\<close>

text \<open>
  The pointer handlers receive the position that the stage reports for the event, a pair
  \<open>(x, y)\<close>.
\<close>

definition handleMouseDown :: "real \<times> real \<Rightarrow> app_state \<Rightarrow> app_state" where
  "handleMouseDown pos s =
     (let newLine = \<lparr>line_color = color s, points = [fst pos, snd pos],
                     line_size = currentSize s, line_tool = tool s\<rparr>
      in s\<lparr>isDrawing := True, showToolbox := False, lines := lines s @ [newLine]\<rparr>)"

text \<open>
  The updater that \<open>handleMouseMove\<close> passes to \<open>setLines\<close> (lines 134 to 142). The read
  \<open>prevLines[prevLines.length - 1]\<close> comes after the test for the empty array, so it is in
  range.
\<close>

definition moveUpdater :: "real \<times> real \<Rightarrow> DrawingLine list \<Rightarrow> DrawingLine list" where
  "moveUpdater point prevLines =
     (if length prevLines = 0 then prevLines
      else let lastLine = prevLines ! (length prevLines - 1);
               updatedLine = lastLine\<lparr>points := points lastLine @ [fst point, snd point]\<rparr>
           in js_slice prevLines 0 (- 1) @ [updatedLine])"

definition handleMouseMove :: "real \<times> real \<Rightarrow> app_state \<Rightarrow> app_state" where
  "handleMouseMove point s =
     (if \<not> isDrawing s then s else s\<lparr>lines := moveUpdater point (lines s)\<rparr>)"

text \<open>
  \<open>handleMouseUp\<close>. The \<open>setTimeout\<close> callback that shows the toolbox again runs as a later
  event of its own, \<open>showToolboxTimeout\<close>.
\<close>

definition handleMouseUp :: "app_state \<Rightarrow> app_state" where
  "handleMouseUp s =
     s\<lparr>isDrawing := False,
       history := js_slice (history s) 0 (historyStep s + 1) @ [lines s],
       historyStep := historyStep s + 1\<rparr>"

definition showToolboxTimeout :: "app_state \<Rightarrow> app_state" where
  "showToolboxTimeout s = s\<lparr>showToolbox := True\<rparr>"

definition handleClearCanvas :: "app_state \<Rightarrow> app_state" where
  "handleClearCanvas s =
     s\<lparr>lines := [],
       history := js_slice (history s) 0 (historyStep s + 1) @ [[]],
       historyStep := historyStep s + 1\<rparr>"

subsection \<open>The history invariant\<close>

definition history_inv :: "app_state \<Rightarrow> bool" where
  "history_inv s = (0 \<le> historyStep s \<and> historyStep s < int (length (history s)))"

subsection \<open>Event sequences and example states\<close>

text \<open>
  One stroke gesture: a begin event at \<open>p0\<close>, the move events \<open>ps\<close> in order, then the end
  event. \<open>flat\<close> is the flat coordinate list \<open>[x0, y0, x1, y1, ...]\<close> of a list of positions.
\<close>

fun moves :: "(real \<times> real) list \<Rightarrow> app_state \<Rightarrow> app_state" where
  "moves [] s = s"
| "moves (p # ps) s = moves ps (handleMouseMove p s)"

definition gesture :: "real \<times> real \<Rightarrow> (real \<times> real) list \<Rightarrow> app_state \<Rightarrow> app_state" where
  "gesture p0 ps s = handleMouseUp (moves ps (handleMouseDown p0 s))"

fun flat :: "(real \<times> real) list \<Rightarrow> real list" where
  "flat [] = []"
| "flat (p # ps) = fst p # snd p # flat ps"

text \<open>
  The canvas on display is the snapshot under the cursor. This holds whenever no stroke is
  being captured (\<open>capture_inv\<close> below), and fails between a begin event and its end event.
\<close>

definition displays_snapshot :: "app_state \<Rightarrow> bool" where
  "displays_snapshot s = (js_index (history s) (historyStep s) = Some (lines s))"

definition capture_inv :: "app_state \<Rightarrow> bool" where
  "capture_inv s = (history_inv s \<and> (isDrawing s \<or> displays_snapshot s))"

text \<open>The state after two stroke gestures from the initial state.\<close>

definition two_strokes :: app_state where
  "two_strokes = gesture (5, 5) [(6, 6)] (gesture (1, 1) [(2, 2)] initial_state)"

section \<open>Basic facts\<close>

lemma js_slice_prefix: "0 \<le> e \<Longrightarrow> js_slice xs 0 e = take (nat e) xs"
  by (simp add: js_slice_def Let_def min_def)

lemma nat_int_pred: "nat (int n - 1) = n - 1"
  by arith

lemma js_slice_butlast: "js_slice xs 0 (- 1) = butlast xs"
  by (cases "xs = []") (simp_all add: js_slice_def Let_def butlast_conv_take nat_int_pred)

lemma moveUpdater_eq:
  "moveUpdater p ls =
     (if ls = [] then []
      else butlast ls @ [(last ls)\<lparr>points := points (last ls) @ [fst p, snd p]\<rparr>])"
  by (simp add: moveUpdater_def last_conv_nth js_slice_butlast Let_def)

lemma inv_bounds:
  assumes "history_inv s"
  shows "0 \<le> historyStep s" and "nat (historyStep s) < length (history s)"
  using assms unfolding history_inv_def by arith+

lemma inv_slice:
  "history_inv s \<Longrightarrow>
   js_slice (history s) 0 (historyStep s + 1) = take (nat (historyStep s) + 1) (history s)"
  by (simp add: history_inv_def js_slice_prefix nat_add_distrib)

lemma inv_slice_length:
  "history_inv s \<Longrightarrow>
   int (length (js_slice (history s) 0 (historyStep s + 1))) = historyStep s + 1"
  by (simp add: inv_slice) (simp add: history_inv_def min_def, arith)

subsection \<open>Each handler keeps the history invariant\<close>

lemma initial_inv: "history_inv initial_state"
  by (simp add: history_inv_def initial_state_def)

lemma mouseDown_inv: "history_inv s \<Longrightarrow> history_inv (handleMouseDown p s)"
  by (simp add: history_inv_def handleMouseDown_def Let_def)

lemma mouseMove_inv: "history_inv s \<Longrightarrow> history_inv (handleMouseMove p s)"
  by (simp add: history_inv_def handleMouseMove_def)

lemma mouseUp_inv: "history_inv s \<Longrightarrow> history_inv (handleMouseUp s)"
  using inv_slice_length [of s] by (simp add: history_inv_def handleMouseUp_def)

lemma undo_inv: "history_inv s \<Longrightarrow> history_inv (handleUndo s)"
  by (simp add: history_inv_def handleUndo_def)

lemma redo_inv: "history_inv s \<Longrightarrow> \<exists>s'. handleRedo s = Inr s' \<and> history_inv s'"
  by (simp add: history_inv_def handleRedo_def js_index_def)

lemma clear_inv: "history_inv s \<Longrightarrow> history_inv (handleClearCanvas s)"
  using inv_slice_length [of s] by (simp add: handleClearCanvas_def history_inv_def)

lemma cursor_in_range: "history_inv s \<Longrightarrow> \<exists>l. js_index (history s) (historyStep s) = Some l"
  by (simp add: history_inv_def js_index_def)

subsection \<open>Clearing\<close>

lemma clear_history:
  "history_inv s \<Longrightarrow>
   history (handleClearCanvas s) = take (nat (historyStep s) + 1) (history s) @ [[]]"
  by (simp add: handleClearCanvas_def inv_slice)

lemma clear_twice_history:
  assumes "history_inv s"
  shows "history (handleClearCanvas (handleClearCanvas s))
           = take (nat (historyStep s) + 1) (history s) @ [[], []]"
proof -
  let ?c = "nat (historyStep s)"
  from assms have lt: "?c < length (history s)" and c: "0 \<le> historyStep s"
    by (simp_all add: inv_bounds)
  have step: "nat (historyStep (handleClearCanvas s)) = ?c + 1"
    using c by (simp add: handleClearCanvas_def nat_add_distrib)
  have "history (handleClearCanvas (handleClearCanvas s))
          = take (?c + 1 + 1) (take (?c + 1) (history s) @ [[]]) @ [[]]"
    using clear_history [OF clear_inv [OF assms]] clear_history [OF assms] step by simp
  also have "take (?c + 1 + 1) (take (?c + 1) (history s) @ [[]])
               = take (?c + 1) (history s) @ [[]]"
    using lt by simp
  finally show ?thesis by simp
qed

subsection \<open>A stroke gesture\<close>

lemma move_capturing:
  "isDrawing s \<Longrightarrow> lines s = ls @ [l] \<Longrightarrow>
   handleMouseMove p s = s\<lparr>lines := ls @ [l\<lparr>points := points l @ [fst p, snd p]\<rparr>]\<rparr>"
  by (simp add: handleMouseMove_def moveUpdater_eq)

lemma moves_capturing:
  "isDrawing s \<Longrightarrow> lines s = ls @ [l] \<Longrightarrow>
   moves ps s = s\<lparr>lines := ls @ [l\<lparr>points := points l @ flat ps\<rparr>]\<rparr>"
proof (induction ps arbitrary: s l)
  case Nil
  then show ?case by simp
next
  case (Cons p ps)
  let ?l = "l\<lparr>points := points l @ [fst p, snd p]\<rparr>"
  let ?s = "s\<lparr>lines := ls @ [?l]\<rparr>"
  have "moves (p # ps) s = moves ps ?s"
    using Cons.prems by (simp add: move_capturing)
  also have "\<dots> = ?s\<lparr>lines := ls @ [?l\<lparr>points := points ?l @ flat ps\<rparr>]\<rparr>"
    using Cons.prems by (intro Cons.IH) simp_all
  finally show ?case by simp
qed

lemma gesture_eq:
  "gesture p0 ps s =
     s\<lparr>isDrawing := False, showToolbox := False,
       lines := lines s @ [\<lparr>line_color = color s, points = flat (p0 # ps),
                            line_size = currentSize s, line_tool = tool s\<rparr>],
       history := js_slice (history s) 0 (historyStep s + 1)
                  @ [lines s @ [\<lparr>line_color = color s, points = flat (p0 # ps),
                                  line_size = currentSize s, line_tool = tool s\<rparr>]],
       historyStep := historyStep s + 1\<rparr>"
proof -
  let ?l = "\<lparr>line_color = color s, points = [fst p0, snd p0],
             line_size = currentSize s, line_tool = tool s\<rparr>"
  let ?s = "handleMouseDown p0 s"
  have d: "isDrawing ?s" "lines ?s = lines s @ [?l]"
    by (simp_all add: handleMouseDown_def Let_def)
  have "moves ps ?s = ?s\<lparr>lines := lines s @ [?l\<lparr>points := points ?l @ flat ps\<rparr>]\<rparr>"
    by (rule moves_capturing [OF d])
  then show ?thesis
    by (simp add: gesture_def handleMouseUp_def handleMouseDown_def Let_def)
qed

subsection \<open>The example states, evaluated\<close>

lemma two_strokes_eq:
  "two_strokes =
     \<lparr>tool = Pen,
      lines = [\<lparr>line_color = ''#df4b26'', points = [1, 1, 2, 2], line_size = 6, line_tool = Pen\<rparr>,
               \<lparr>line_color = ''#df4b26'', points = [5, 5, 6, 6], line_size = 6, line_tool = Pen\<rparr>],
      history =
        [[],
         [\<lparr>line_color = ''#df4b26'', points = [1, 1, 2, 2], line_size = 6, line_tool = Pen\<rparr>],
         [\<lparr>line_color = ''#df4b26'', points = [1, 1, 2, 2], line_size = 6, line_tool = Pen\<rparr>,
          \<lparr>line_color = ''#df4b26'', points = [5, 5, 6, 6], line_size = 6, line_tool = Pen\<rparr>]],
      historyStep = 2, color = ''#df4b26'', showToolbox = False, penSize = 6, eraserSize = 12,
      isDrawing = False\<rparr>"
  by (simp add: two_strokes_def gesture_eq initial_state_def PREDEFINED_COLORS_def
      currentSize_def js_slice_def)

lemma undo_two_strokes_eq:
  "handleUndo two_strokes =
     \<lparr>tool = Pen,
      lines = [\<lparr>line_color = ''#df4b26'', points = [1, 1, 2, 2], line_size = 6, line_tool = Pen\<rparr>],
      history =
        [[],
         [\<lparr>line_color = ''#df4b26'', points = [1, 1, 2, 2], line_size = 6, line_tool = Pen\<rparr>],
         [\<lparr>line_color = ''#df4b26'', points = [1, 1, 2, 2], line_size = 6, line_tool = Pen\<rparr>,
          \<lparr>line_color = ''#df4b26'', points = [5, 5, 6, 6], line_size = 6, line_tool = Pen\<rparr>]],
      historyStep = 1, color = ''#df4b26'', showToolbox = False, penSize = 6, eraserSize = 12,
      isDrawing = False\<rparr>"
  by (simp add: two_strokes_eq handleUndo_def js_index_def)

lemma two_strokes_inv: "history_inv two_strokes"
  by (simp add: two_strokes_eq history_inv_def)

lemma undo_two_strokes_inv: "history_inv (handleUndo two_strokes)"
  by (simp add: undo_two_strokes_eq history_inv_def)

subsection \<open>Outside a capture the canvas on display is the snapshot under the cursor\<close>

lemma mouseUp_displays_snapshot:
  assumes "history_inv s"
  shows "displays_snapshot (handleMouseUp s)"
proof -
  have "length (js_slice (history s) 0 (historyStep s + 1)) = nat (historyStep s + 1)"
    using inv_slice_length [OF assms] by simp
  then show ?thesis
    using inv_bounds(1) [OF assms]
    by (simp add: displays_snapshot_def handleMouseUp_def js_index_def nth_append)
qed

lemma clear_displays_snapshot:
  assumes "history_inv s"
  shows "displays_snapshot (handleClearCanvas s)"
proof -
  have "length (js_slice (history s) 0 (historyStep s + 1)) = nat (historyStep s + 1)"
    using inv_slice_length [OF assms] by simp
  then show ?thesis
    using inv_bounds(1) [OF assms]
    by (simp add: displays_snapshot_def handleClearCanvas_def js_index_def nth_append)
qed

lemma capture_inv_initial: "capture_inv initial_state"
  by (simp add: capture_inv_def history_inv_def displays_snapshot_def initial_state_def
      js_index_def)

lemma capture_inv_preserved:
  assumes "capture_inv s"
  shows "capture_inv (handleMouseDown p s)"
    and "capture_inv (handleMouseMove p s)"
    and "capture_inv (handleMouseUp s)"
    and "capture_inv (handleUndo s)"
    and "\<exists>s'. handleRedo s = Inr s' \<and> capture_inv s'"
    and "capture_inv (handleClearCanvas s)"
proof -
  from assms have inv: "history_inv s" by (simp add: capture_inv_def)
  show "capture_inv (handleMouseDown p s)"
    using inv by (simp add: capture_inv_def history_inv_def handleMouseDown_def Let_def)
  show "capture_inv (handleMouseMove p s)"
    using assms
    by (auto simp: capture_inv_def history_inv_def displays_snapshot_def handleMouseMove_def)
  show "capture_inv (handleMouseUp s)"
    using mouseUp_inv [OF inv] mouseUp_displays_snapshot [OF inv]
    by (simp add: capture_inv_def)
  show "capture_inv (handleUndo s)"
    using assms
    by (auto simp: capture_inv_def history_inv_def displays_snapshot_def handleUndo_def
        js_index_def)
  show "\<exists>s'. handleRedo s = Inr s' \<and> capture_inv s'"
    using assms
    by (auto simp: capture_inv_def history_inv_def displays_snapshot_def handleRedo_def
        js_index_def)
  show "capture_inv (handleClearCanvas s)"
    using clear_inv [OF inv] clear_displays_snapshot [OF inv]
    by (simp add: capture_inv_def)
qed

section \<open>The claims\<close>

subsection \<open>C1: commit\<close>

text \<open>
  Claim C1. The code commits in two places: \<open>handleMouseUp\<close> commits the canvas on display and
  \<open>handleClearCanvas\<close> commits the empty canvas. For every state that satisfies the history
  invariant, either commit keeps the snapshots at indices \<open>0\<close> to \<open>historyStep\<close> inclusive,
  appends the committed canvas as one new entry, and leaves the cursor on the last snapshot;
  so redo is not possible right after a commit.
\<close>

theorem commit_truncates_and_appends:
  assumes "history_inv s"
  shows "history (handleMouseUp s) = take (nat (historyStep s) + 1) (history s) @ [lines s]
       \<and> historyStep (handleMouseUp s) = int (length (history (handleMouseUp s))) - 1
       \<and> \<not> canRedo (handleMouseUp s)
       \<and> history (handleClearCanvas s) = take (nat (historyStep s) + 1) (history s) @ [[]]
       \<and> historyStep (handleClearCanvas s) = int (length (history (handleClearCanvas s))) - 1
       \<and> \<not> canRedo (handleClearCanvas s)"
  using inv_slice [OF assms] inv_slice_length [OF assms]
  by (simp add: handleMouseUp_def handleClearCanvas_def canRedo_def)

theorem commit_truncates_and_appends_witness:
  "history_inv (handleUndo two_strokes)
   \<and> canRedo (handleUndo two_strokes)
   \<and> length (history (handleUndo two_strokes)) = 3
   \<and> history (handleMouseUp (handleUndo two_strokes))
       = take 2 (history (handleUndo two_strokes)) @ [lines (handleUndo two_strokes)]
   \<and> historyStep (handleMouseUp (handleUndo two_strokes)) = 2
   \<and> \<not> canRedo (handleMouseUp (handleUndo two_strokes))
   \<and> \<not> canRedo (handleClearCanvas (handleUndo two_strokes))"
proof -
  have h: "history_inv (handleUndo two_strokes)"
    by (rule undo_two_strokes_inv)
  have c: "canRedo (handleUndo two_strokes)" "length (history (handleUndo two_strokes)) = 3"
    "nat (historyStep (handleUndo two_strokes)) + 1 = 2"
    by (simp_all add: undo_two_strokes_eq canRedo_def)
  from commit_truncates_and_appends [OF h] c h show ?thesis
    by (simp add: numeral_2_eq_2)
qed

subsection \<open>C2: an end event outside a capture\<close>

text \<open>
  Claim C2 says that an end event while no stroke is being captured changes neither the
  strokes nor the history. \<open>handleMouseMove\<close> tests \<open>isDrawing.current\<close> and returns;
  \<open>handleMouseUp\<close> has no such test. In the initial state, where nothing is being captured, it
  appends a second, empty snapshot and moves the cursor to \<open>1\<close>. In a state with snapshots
  after the cursor it also discards them: after two strokes and one undo, the snapshot holding
  both strokes is replaced by a copy of the canvas on display.
\<close>

theorem mouseUp_while_idle_commits:
  "\<not> isDrawing initial_state
   \<and> lines (handleMouseUp initial_state) = lines initial_state
   \<and> history initial_state = [[]]
   \<and> history (handleMouseUp initial_state) = [[], []]
   \<and> historyStep initial_state = 0
   \<and> historyStep (handleMouseUp initial_state) = 1
   \<and> \<not> isDrawing (handleUndo two_strokes)
   \<and> map (map points) (history (handleUndo two_strokes))
       = [[], [[1, 1, 2, 2]], [[1, 1, 2, 2], [5, 5, 6, 6]]]
   \<and> map (map points) (history (handleMouseUp (handleUndo two_strokes)))
       = [[], [[1, 1, 2, 2]], [[1, 1, 2, 2]]]
   \<and> historyStep (handleUndo two_strokes) = 1
   \<and> historyStep (handleMouseUp (handleUndo two_strokes)) = 2"
  by (simp add: undo_two_strokes_eq) (simp add: initial_state_def handleMouseUp_def js_slice_def)

subsection \<open>C3: undo\<close>

text \<open>
  Claim C3. For every state that satisfies the history invariant: when the cursor is positive,
  \<open>handleUndo\<close> lowers it by one, keeps the snapshot list, and displays the snapshot under the
  new cursor; when the cursor is \<open>0\<close> it changes nothing at all. \<open>handleUndo\<close> has no failing
  branch: it is a function into states, and its array read falls back to the empty canvas.
\<close>

theorem undo_correct:
  assumes "history_inv s"
  shows "(0 < historyStep s \<longrightarrow>
            historyStep (handleUndo s) = historyStep s - 1
          \<and> history (handleUndo s) = history s
          \<and> js_index (history (handleUndo s)) (historyStep (handleUndo s))
              = Some (lines (handleUndo s)))
       \<and> (historyStep s = 0 \<longrightarrow> handleUndo s = s)"
  using assms
  by (simp add: handleUndo_def history_inv_def js_index_def)

theorem undo_correct_witness:
  "history_inv two_strokes \<and> 0 < historyStep two_strokes
   \<and> historyStep (handleUndo two_strokes) = historyStep two_strokes - 1
   \<and> js_index (history (handleUndo two_strokes)) (historyStep (handleUndo two_strokes))
       = Some (lines (handleUndo two_strokes))
   \<and> map points (lines (handleUndo two_strokes)) = [[1, 1, 2, 2]]
   \<and> history_inv initial_state \<and> historyStep initial_state = 0
   \<and> handleUndo initial_state = initial_state"
proof -
  have h1: "history_inv two_strokes" by (rule two_strokes_inv)
  have p1: "0 < historyStep two_strokes" by (simp add: two_strokes_eq)
  have h0: "history_inv initial_state" by (rule initial_inv)
  have p0: "historyStep initial_state = 0" by (simp add: initial_state_def)
  have v: "map points (lines (handleUndo two_strokes)) = [[1, 1, 2, 2]]"
    by (simp add: undo_two_strokes_eq)
  from undo_correct [OF h1] undo_correct [OF h0] h1 p1 h0 p0 v show ?thesis
    by blast
qed

subsection \<open>C4: redo\<close>

text \<open>
  Claim C4. For every state that satisfies the history invariant: when the cursor is below the
  last index, \<open>handleRedo\<close> succeeds, raises the cursor by one, keeps the snapshot list, and
  displays the snapshot under the new cursor; when the cursor is the last index it succeeds
  and changes nothing.
\<close>

theorem redo_correct:
  assumes "history_inv s"
  shows "(historyStep s < int (length (history s)) - 1 \<longrightarrow>
            (\<exists>s'. handleRedo s = Inr s'
                 \<and> historyStep s' = historyStep s + 1
                 \<and> history s' = history s
                 \<and> js_index (history s') (historyStep s') = Some (lines s')))
       \<and> (historyStep s = int (length (history s)) - 1 \<longrightarrow> handleRedo s = Inr s)"
  using assms
  by (simp add: handleRedo_def history_inv_def js_index_def)

theorem redo_correct_witness:
  "history_inv (handleUndo two_strokes)
   \<and> historyStep (handleUndo two_strokes) < int (length (history (handleUndo two_strokes))) - 1
   \<and> handleRedo (handleUndo two_strokes) = Inr two_strokes
   \<and> history_inv two_strokes
   \<and> historyStep two_strokes = int (length (history two_strokes)) - 1
   \<and> handleRedo two_strokes = Inr two_strokes"
proof -
  have h1: "history_inv (handleUndo two_strokes)" by (rule undo_two_strokes_inv)
  have p1: "historyStep (handleUndo two_strokes)
              < int (length (history (handleUndo two_strokes))) - 1"
    by (simp add: undo_two_strokes_eq)
  have h2: "history_inv two_strokes" by (rule two_strokes_inv)
  have p2: "historyStep two_strokes = int (length (history two_strokes)) - 1"
    by (simp add: two_strokes_eq)
  have v: "handleRedo (handleUndo two_strokes) = Inr two_strokes"
    by (simp only: undo_two_strokes_eq) (simp add: two_strokes_eq handleRedo_def js_index_def)
  from redo_correct [OF h1] redo_correct [OF h2] h1 p1 h2 p2 v show ?thesis
    by blast
qed

subsection \<open>C5: undo followed by redo\<close>

text \<open>
  Claim C5 says that, from every state with a positive cursor, undo followed by redo restores
  the canvas and the cursor that existed before the undo. The cursor and the snapshot list do
  come back, but the canvas that comes back is the snapshot under the cursor, and during a
  capture the canvas on display holds a stroke that no snapshot has yet. After one complete
  stroke and the begin event of a second one, undo and redo (both are keyboard shortcuts, so
  they can arrive while the pointer is down) bring back the first stroke only.
\<close>

theorem undo_redo_loses_uncommitted_stroke:
  "history_inv (handleMouseDown (5, 5) (handleMouseUp (handleMouseDown (1, 1) initial_state)))
   \<and> 0 < historyStep
           (handleMouseDown (5, 5) (handleMouseUp (handleMouseDown (1, 1) initial_state)))
   \<and> map points
         (lines (handleMouseDown (5, 5) (handleMouseUp (handleMouseDown (1, 1) initial_state))))
       = [[1, 1], [5, 5]]
   \<and> \<not> isl (handleRedo (handleUndo
         (handleMouseDown (5, 5) (handleMouseUp (handleMouseDown (1, 1) initial_state)))))
   \<and> map points (lines (projr (handleRedo (handleUndo
         (handleMouseDown (5, 5) (handleMouseUp (handleMouseDown (1, 1) initial_state)))))))
       = [[1, 1]]
   \<and> lines (projr (handleRedo (handleUndo
         (handleMouseDown (5, 5) (handleMouseUp (handleMouseDown (1, 1) initial_state))))))
       \<noteq> lines (handleMouseDown (5, 5) (handleMouseUp (handleMouseDown (1, 1) initial_state)))"
  by (simp add: initial_state_def handleMouseDown_def handleMouseUp_def handleUndo_def
      handleRedo_def js_slice_def js_index_def history_inv_def currentSize_def Let_def)

text \<open>
  Claim C5, amended. For every state that satisfies the history invariant and has a positive
  cursor, undo followed by redo succeeds, restores the cursor and the snapshot list, and
  displays the snapshot under the restored cursor. When the canvas on display before the undo
  was that snapshot, as it is whenever no stroke is being captured, the whole state is
  restored, the strokes on display included.
\<close>

theorem undo_redo_roundtrip:
  assumes "history_inv s" and "0 < historyStep s"
  shows "(\<exists>s'. handleRedo (handleUndo s) = Inr s'
              \<and> historyStep s' = historyStep s
              \<and> history s' = history s
              \<and> js_index (history s) (historyStep s) = Some (lines s'))
       \<and> (displays_snapshot s \<longrightarrow> handleRedo (handleUndo s) = Inr s)"
  using assms
  by (simp add: handleRedo_def handleUndo_def history_inv_def js_index_def
      displays_snapshot_def)

theorem undo_redo_roundtrip_witness:
  "history_inv two_strokes \<and> 0 < historyStep two_strokes \<and> displays_snapshot two_strokes
   \<and> handleRedo (handleUndo two_strokes) = Inr two_strokes"
proof -
  have h: "history_inv two_strokes" by (rule two_strokes_inv)
  have p: "0 < historyStep two_strokes" by (simp add: two_strokes_eq)
  have d: "displays_snapshot two_strokes"
    by (simp add: two_strokes_eq displays_snapshot_def js_index_def)
  from undo_redo_roundtrip [OF h p] h p d show ?thesis
    by blast
qed

subsection \<open>C6: clear\<close>

text \<open>
  Claim C6. In every state, \<open>handleClearCanvas\<close> leaves the same strokes, snapshot list and
  cursor as the commit of \<open>handleMouseUp\<close> applied to the empty canvas. From a state with the
  history invariant, two clears in a row append two empty snapshots after the snapshots
  \<open>0\<close> to \<open>historyStep\<close>, and one undo after them puts the cursor on the entry appended by the
  first clear (one above the cursor before the clears) and displays the empty canvas.
\<close>

theorem clear_is_commit_of_empty:
  "lines (handleClearCanvas s) = lines (handleMouseUp (s\<lparr>lines := []\<rparr>))
   \<and> history (handleClearCanvas s) = history (handleMouseUp (s\<lparr>lines := []\<rparr>))
   \<and> historyStep (handleClearCanvas s) = historyStep (handleMouseUp (s\<lparr>lines := []\<rparr>))
   \<and> (history_inv s \<longrightarrow>
          history (handleClearCanvas (handleClearCanvas s))
            = take (nat (historyStep s) + 1) (history s) @ [[], []]
        \<and> historyStep (handleClearCanvas s) = historyStep s + 1
        \<and> historyStep (handleClearCanvas (handleClearCanvas s)) = historyStep s + 2
        \<and> historyStep (handleUndo (handleClearCanvas (handleClearCanvas s))) = historyStep s + 1
        \<and> lines (handleUndo (handleClearCanvas (handleClearCanvas s))) = []
        \<and> history (handleUndo (handleClearCanvas (handleClearCanvas s)))
            = history (handleClearCanvas (handleClearCanvas s)))"
proof -
  have eq: "lines (handleClearCanvas s) = lines (handleMouseUp (s\<lparr>lines := []\<rparr>))
     \<and> history (handleClearCanvas s) = history (handleMouseUp (s\<lparr>lines := []\<rparr>))
     \<and> historyStep (handleClearCanvas s) = historyStep (handleMouseUp (s\<lparr>lines := []\<rparr>))"
    by (simp add: handleClearCanvas_def handleMouseUp_def)
  have twice: "history (handleClearCanvas (handleClearCanvas s))
            = take (nat (historyStep s) + 1) (history s) @ [[], []]
        \<and> historyStep (handleClearCanvas s) = historyStep s + 1
        \<and> historyStep (handleClearCanvas (handleClearCanvas s)) = historyStep s + 2
        \<and> historyStep (handleUndo (handleClearCanvas (handleClearCanvas s))) = historyStep s + 1
        \<and> lines (handleUndo (handleClearCanvas (handleClearCanvas s))) = []
        \<and> history (handleUndo (handleClearCanvas (handleClearCanvas s)))
            = history (handleClearCanvas (handleClearCanvas s))"
    if inv: "history_inv s"
  proof -
    let ?s2 = "handleClearCanvas (handleClearCanvas s)"
    let ?c = "nat (historyStep s)"
    from inv have lt: "?c < length (history s)" and c: "0 \<le> historyStep s"
      by (simp_all add: inv_bounds)
    have h2: "history ?s2 = take (?c + 1) (history s) @ [[], []]"
      by (rule clear_twice_history [OF inv])
    have st1: "historyStep (handleClearCanvas s) = historyStep s + 1"
      by (simp add: handleClearCanvas_def)
    have st2: "historyStep ?s2 = historyStep s + 2"
      by (simp add: handleClearCanvas_def)
    have idx: "js_index (history ?s2) (historyStep s + 1) = Some []"
      using lt c by (simp add: h2 js_index_def nth_append nat_add_distrib)
    have pos: "0 < historyStep ?s2" using c st2 by simp
    have u: "handleUndo ?s2 = ?s2\<lparr>historyStep := historyStep s + 1, lines := []\<rparr>"
      using pos idx st2 by (simp add: handleUndo_def add.commute)
    show ?thesis using h2 st1 st2 u by simp
  qed
  show ?thesis using eq twice by blast
qed

theorem clear_is_commit_of_empty_witness:
  "history_inv two_strokes
   \<and> map points (lines two_strokes) = [[1, 1, 2, 2], [5, 5, 6, 6]]
   \<and> historyStep two_strokes = 2
   \<and> historyStep (handleClearCanvas (handleClearCanvas two_strokes)) = 4
   \<and> historyStep (handleUndo (handleClearCanvas (handleClearCanvas two_strokes))) = 3
   \<and> lines (handleUndo (handleClearCanvas (handleClearCanvas two_strokes))) = []
   \<and> history (handleClearCanvas (handleClearCanvas two_strokes))
       = history two_strokes @ [[], []]"
proof -
  have h: "history_inv two_strokes" by (rule two_strokes_inv)
  have v: "map points (lines two_strokes) = [[1, 1, 2, 2], [5, 5, 6, 6]]"
    "historyStep two_strokes = 2"
    "take (nat (historyStep two_strokes) + 1) (history two_strokes) = history two_strokes"
    by (simp_all add: two_strokes_eq)
  from clear_is_commit_of_empty [of two_strokes] h v show ?thesis
    by simp
qed

subsection \<open>C7: the points of a stroke\<close>

text \<open>
  Claim C7. From every state, a begin event at \<open>p0\<close>, move events at \<open>ps\<close> in order and an end
  event add exactly one stroke to the canvas, after the strokes already there, and its points
  are the coordinates of \<open>p0\<close> and of \<open>ps\<close> in order, with nothing added by the end event; the
  committed snapshot is that canvas. From the initial state, begin at \<open>(10, 10)\<close>, moves at
  \<open>(20, 20)\<close> and \<open>(30, 10)\<close>, and end give a history of length \<open>2\<close>, cursor \<open>1\<close>, and one stroke
  with the points \<open>[10, 10, 20, 20, 30, 10]\<close>.
\<close>

theorem stroke_points_in_order:
  "lines (gesture p0 ps s)
     = lines s @ [\<lparr>line_color = color s, points = flat (p0 # ps),
                    line_size = currentSize s, line_tool = tool s\<rparr>]
   \<and> last (history (gesture p0 ps s)) = lines (gesture p0 ps s)
   \<and> length (history (gesture (10, 10) [(20, 20), (30, 10)] initial_state)) = 2
   \<and> historyStep (gesture (10, 10) [(20, 20), (30, 10)] initial_state) = 1
   \<and> map points (lines (gesture (10, 10) [(20, 20), (30, 10)] initial_state))
       = [[10, 10, 20, 20, 30, 10]]
   \<and> js_index (history (gesture (10, 10) [(20, 20), (30, 10)] initial_state)) 1
       = Some (lines (gesture (10, 10) [(20, 20), (30, 10)] initial_state))"
  by (simp add: gesture_eq) (simp add: initial_state_def js_slice_def js_index_def)

subsection \<open>C8: move events\<close>




subsection \<open>C9: the history invariant\<close>

text \<open>
  Claim C9. The invariant \<open>0 \<le> historyStep < history.length\<close> holds in the initial state,
  which has the single empty snapshot and cursor \<open>0\<close>, and every operation (begin, move, end,
  undo, redo, clear) takes a state with the invariant to a state with the invariant, redo
  without error. In a state with the invariant the cursor is a valid index of the snapshot
  list.
\<close>

theorem history_invariant:
  "history_inv initial_state
   \<and> history initial_state = [[]] \<and> historyStep initial_state = 0
   \<and> (history_inv s \<longrightarrow>
          history_inv (handleMouseDown p s)
        \<and> history_inv (handleMouseMove p s)
        \<and> history_inv (handleMouseUp s)
        \<and> history_inv (handleUndo s)
        \<and> (\<exists>s'. handleRedo s = Inr s' \<and> history_inv s')
        \<and> history_inv (handleClearCanvas s)
        \<and> (\<exists>l. js_index (history s) (historyStep s) = Some l))"
  using initial_inv mouseDown_inv [of s p] mouseMove_inv [of s p] mouseUp_inv [of s]
    undo_inv [of s] redo_inv [of s] clear_inv [of s] cursor_in_range [of s]
  by (simp add: initial_state_def)

theorem history_invariant_witness:
  "history_inv (handleUndo two_strokes)
   \<and> history_inv (handleMouseDown (3, 4) (handleUndo two_strokes))
   \<and> history_inv (handleMouseMove (3, 4) (handleUndo two_strokes))
   \<and> history_inv (handleMouseUp (handleUndo two_strokes))
   \<and> history_inv (handleUndo (handleUndo two_strokes))
   \<and> handleRedo (handleUndo two_strokes) = Inr two_strokes
   \<and> history_inv two_strokes
   \<and> history_inv (handleClearCanvas (handleUndo two_strokes))"
proof -
  have h: "history_inv (handleUndo two_strokes)" by (rule undo_two_strokes_inv)
  have r: "handleRedo (handleUndo two_strokes) = Inr two_strokes"
    by (simp only: undo_two_strokes_eq) (simp add: two_strokes_eq handleRedo_def js_index_def)
  from history_invariant [of "handleUndo two_strokes" "(3, 4)"] h r show ?thesis
    by auto
qed

subsection \<open>C10: one size per tool\<close>

text \<open>
  Claim C10. The state holds one size for the pen and one for the eraser. The single size
  setter, \<open>setCurrentSize\<close>, stores its argument in the cell of the tool that is selected and
  leaves the other cell as it was, and a new stroke is created with the tool that is selected
  and the size stored for that tool.
\<close>

theorem independent_tool_sizes:
  "(tool s = Pen \<longrightarrow> penSize (setCurrentSize v s) = v
                    \<and> eraserSize (setCurrentSize v s) = eraserSize s)
   \<and> (tool s = Eraser \<longrightarrow> eraserSize (setCurrentSize v s) = v
                       \<and> penSize (setCurrentSize v s) = penSize s)
   \<and> line_tool (last (lines (handleMouseDown p s))) = tool s
   \<and> line_size (last (lines (handleMouseDown p s)))
       = (case tool s of Pen \<Rightarrow> penSize s | Eraser \<Rightarrow> eraserSize s)"
  by (cases "tool s") (simp_all add: setCurrentSize_def handleMouseDown_def currentSize_def Let_def)

theorem independent_tool_sizes_witness:
  "tool initial_state = Pen
   \<and> penSize (setCurrentSize 20 initial_state) = 20
   \<and> eraserSize (setCurrentSize 20 initial_state) = 12
   \<and> tool (handleToolClick Eraser initial_state) = Eraser
   \<and> eraserSize (setCurrentSize 20 (handleToolClick Eraser initial_state)) = 20
   \<and> penSize (setCurrentSize 20 (handleToolClick Eraser initial_state)) = 6
   \<and> line_size (last (lines (handleMouseDown (1, 1)
         (handleToolClick Eraser (setCurrentSize 20 initial_state))))) = 12"
proof -
  have t: "tool initial_state = Pen" "tool (handleToolClick Eraser initial_state) = Eraser"
    "eraserSize initial_state = 12" "penSize (handleToolClick Eraser initial_state) = 6"
    "tool (handleToolClick Eraser (setCurrentSize 20 initial_state)) = Eraser"
    "eraserSize (handleToolClick Eraser (setCurrentSize 20 initial_state)) = 12"
    by (simp_all add: initial_state_def handleToolClick_def setCurrentSize_def)
  from independent_tool_sizes [of initial_state 20]
    independent_tool_sizes [of "handleToolClick Eraser initial_state" 20]
    independent_tool_sizes [of "handleToolClick Eraser (setCurrentSize 20 initial_state)" _ "(1, 1)"]
    t
  show ?thesis by simp
qed

end
